theory Spec2Isabelle
  imports Complex_Main
begin

section \<open>Numbers of the host language\<close>

text \<open>
  Every number in \<^verbatim>\<open>waveform.ts\<close> is an ECMAScript Number. The model keeps the
  special values that decide the control flow of the source (the two infinities and
  NaN, which division by a zero peak count produces) and idealises the finite values
  as exact reals: rounding and overflow of finite results are not modelled, and there
  is no negative zero. The only divisor of the source that can be zero is
  \<^verbatim>\<open>this._peaks.length * GUTTER\<close>, which is never a negative zero, so a zero
  divisor is read as \<open>+0\<close>.
\<close>

datatype jsnum = Num real | PInf | NInf | NaN

fun jneg :: "jsnum \<Rightarrow> jsnum" where
  "jneg (Num a) = Num (- a)"
| "jneg PInf = NInf"
| "jneg NInf = PInf"
| "jneg NaN = NaN"

fun jadd :: "jsnum \<Rightarrow> jsnum \<Rightarrow> jsnum" where
  "jadd (Num a) (Num b) = Num (a + b)"
| "jadd NaN _ = NaN"
| "jadd _ NaN = NaN"
| "jadd PInf NInf = NaN"
| "jadd NInf PInf = NaN"
| "jadd PInf _ = PInf"
| "jadd NInf _ = NInf"
| "jadd _ PInf = PInf"
| "jadd _ NInf = NInf"

definition jsub :: "jsnum \<Rightarrow> jsnum \<Rightarrow> jsnum" where
  "jsub a b = jadd a (jneg b)"

text \<open>The sign of a number that is not NaN: \<open>-1\<close>, \<open>0\<close> or \<open>1\<close>.\<close>

fun jsign :: "jsnum \<Rightarrow> int" where
  "jsign (Num a) = (if a < 0 then - 1 else if a = 0 then 0 else 1)"
| "jsign PInf = 1"
| "jsign NInf = - 1"
| "jsign NaN = 0"

definition signed_inf :: "int \<Rightarrow> jsnum" where
  "signed_inf s = (if s < 0 then NInf else PInf)"

fun jmul :: "jsnum \<Rightarrow> jsnum \<Rightarrow> jsnum" where
  "jmul (Num a) (Num b) = Num (a * b)"
| "jmul NaN _ = NaN"
| "jmul _ NaN = NaN"
| "jmul a b = (if jsign a * jsign b = 0 then NaN else signed_inf (jsign a * jsign b))"

fun jdiv :: "jsnum \<Rightarrow> jsnum \<Rightarrow> jsnum" where
  "jdiv (Num a) (Num b) =
     (if b = 0 then (if a = 0 then NaN else signed_inf (jsign (Num a))) else Num (a / b))"
| "jdiv NaN _ = NaN"
| "jdiv _ NaN = NaN"
| "jdiv (Num a) _ = Num 0"
| "jdiv a (Num b) = signed_inf (jsign a * (if b < 0 then - 1 else 1))"
| "jdiv _ _ = NaN"

text \<open>\<^verbatim>\<open><\<close> and \<^verbatim>\<open>>\<close>: false as soon as one side is NaN.\<close>

fun jlt :: "jsnum \<Rightarrow> jsnum \<Rightarrow> bool" where
  "jlt (Num a) (Num b) = (a < b)"
| "jlt NaN _ = False"
| "jlt _ NaN = False"
| "jlt PInf _ = False"
| "jlt _ NInf = False"
| "jlt _ _ = True"

definition jgt :: "jsnum \<Rightarrow> jsnum \<Rightarrow> bool" where
  "jgt a b = jlt b a"

text \<open>\<^verbatim>\<open>Math.min\<close> and \<^verbatim>\<open>Math.max\<close> of two arguments: NaN as soon as one is NaN.\<close>

definition Math_min :: "jsnum \<Rightarrow> jsnum \<Rightarrow> jsnum" where
  "Math_min a b = (if a = NaN \<or> b = NaN then NaN else if jlt b a then b else a)"

definition Math_max :: "jsnum \<Rightarrow> jsnum \<Rightarrow> jsnum" where
  "Math_max a b = (if a = NaN \<or> b = NaN then NaN else if jlt a b then b else a)"

fun Math_floor :: "jsnum \<Rightarrow> jsnum" where
  "Math_floor (Num a) = Num (of_int \<lfloor>a\<rfloor>)"
| "Math_floor x = x"

fun Math_ceil :: "jsnum \<Rightarrow> jsnum" where
  "Math_ceil (Num a) = Num (of_int \<lceil>a\<rceil>)"
| "Math_ceil x = x"

text \<open>\<^verbatim>\<open>Math.pow(10, x)\<close>, the only power the source takes.\<close>

fun Math_pow10 :: "jsnum \<Rightarrow> jsnum" where
  "Math_pow10 (Num a) = Num (10 powr a)"
| "Math_pow10 PInf = PInf"
| "Math_pow10 NInf = Num 0"
| "Math_pow10 NaN = NaN"

definition unit_interval :: "jsnum \<Rightarrow> bool" where
  "unit_interval x = (case x of Num a \<Rightarrow> 0 \<le> a \<and> a \<le> 1 | _ \<Rightarrow> False)"

definition GUTTER :: jsnum where
  "GUTTER = Num 4"

section \<open>The waveform widget: drag gesture\<close>

text \<open>
  \<^verbatim>\<open>APWaveForm\<close> keeps the peaks, the position and the start position of the drag in
  progress (\<^verbatim>\<open>null\<close> when there is none). What a handler does to the outside
  (claiming the gesture, emitting a signal, asking for a redraw, a property
  notification) is appended to \<open>w_log\<close> in the order the source does it.
  \<open>get_width\<close> is what \<^verbatim>\<open>this.get_width()\<close> returns.
\<close>

datatype effect =
    GestureClaimed
  | EmitGesturePressed
  | EmitPositionChanged jsnum
  | QueueDraw
  | NotifyPosition

record APWaveForm =
  w_peaks :: "jsnum list"
  w_position :: jsnum
  drag_start_position :: "jsnum option"
  get_width :: jsnum
  w_log :: "effect list"

definition new_APWaveForm :: "jsnum \<Rightarrow> APWaveForm" where
  "new_APWaveForm width =
     \<lparr>w_peaks = [], w_position = Num 0, drag_start_position = None,
      get_width = width, w_log = []\<rparr>"

definition dragBegin :: "APWaveForm \<Rightarrow> APWaveForm" where
  "dragBegin w =
     w\<lparr>drag_start_position := Some (w_position w),
       w_log := w_log w @ [GestureClaimed, EmitGesturePressed]\<rparr>"

definition dragUpdate :: "jsnum \<Rightarrow> APWaveForm \<Rightarrow> APWaveForm" where
  "dragUpdate offset_x w =
     (case drag_start_position w of
        None \<Rightarrow> w
      | Some start \<Rightarrow>
          (let after = jsub start
                 (jdiv offset_x (jmul (Num (real (length (w_peaks w)))) GUTTER))
           in w\<lparr>w_position := Math_max (Math_min after (Num 1)) (Num 0),
                 w_log := w_log w @ [QueueDraw]\<rparr>))"

definition dragEnd :: "APWaveForm \<Rightarrow> APWaveForm" where
  "dragEnd w =
     w\<lparr>drag_start_position := None,
       w_log := w_log w @ [EmitPositionChanged (w_position w)]\<rparr>"

text \<open>The setters of the two properties.\<close>

definition set_peaks :: "jsnum list \<Rightarrow> APWaveForm \<Rightarrow> APWaveForm" where
  "set_peaks p w = w\<lparr>w_peaks := p, w_log := w_log w @ [QueueDraw]\<rparr>"

definition set_position :: "jsnum \<Rightarrow> APWaveForm \<Rightarrow> APWaveForm" where
  "set_position pos w =
     w\<lparr>w_position := pos, w_log := w_log w @ [QueueDraw, NotifyPosition]\<rparr>"

text \<open>A run of \<^verbatim>\<open>drag-update\<close> events, delivered in order.\<close>

fun dragUpdates :: "jsnum list \<Rightarrow> APWaveForm \<Rightarrow> APWaveForm" where
  "dragUpdates [] w = w"
| "dragUpdates (x # xs) w = dragUpdates xs (dragUpdate x w)"

definition position_changed_events :: "effect list \<Rightarrow> jsnum list" where
  "position_changed_events es =
     concat (map (\<lambda>e. case e of EmitPositionChanged p \<Rightarrow> [p] | _ \<Rightarrow> []) es)"

section \<open>The waveform widget: drawing\<close>

text \<open>
  The style context is read three times: the foreground colour, and the lookups of
  \<^verbatim>\<open>dimmed_color\<close> and \<^verbatim>\<open>accent_color\<close>, each a pair of a success flag and a colour.
\<close>

record rgba =
  red :: real
  green :: real
  blue :: real
  alpha :: real

record style_context =
  get_color :: rgba
  dimmed_color :: "bool \<times> rgba"
  accent_color :: "bool \<times> rgba"

datatype cairo_op =
    SetLineCapRound
  | SetLineWidth real
  | SetSourceRGBA rgba
  | MoveTo jsnum jsnum
  | LineTo jsnum jsnum
  | Stroke

text \<open>
  \<^verbatim>\<open>Array.prototype.slice(start)\<close>: the start is converted to an integer by
  truncation (NaN counts as 0), a negative start counts from the end, and the result
  is clipped to the array.
\<close>

definition js_trunc :: "real \<Rightarrow> int" where
  "js_trunc r = (if r < 0 then \<lceil>r\<rceil> else \<lfloor>r\<rfloor>)"

fun slice_from :: "jsnum \<Rightarrow> 'a list \<Rightarrow> 'a list" where
  "slice_from NaN xs = xs"
| "slice_from NInf xs = xs"
| "slice_from PInf xs = []"
| "slice_from (Num r) xs =
     (let k = js_trunc r
      in if k < 0 then drop (nat (max (int (length xs) + k) 0)) xs else drop (nat k) xs)"

definition horizCenter :: "jsnum \<Rightarrow> jsnum" where
  "horizCenter width = jdiv width (Num 2)"

definition vertiCenter :: "jsnum \<Rightarrow> jsnum" where
  "vertiCenter height = jdiv height (Num 2)"

text \<open>The pointer before the adjustment: line 134 of the source.\<close>

definition initial_pointer :: "APWaveForm \<Rightarrow> jsnum \<Rightarrow> jsnum" where
  "initial_pointer w width =
     jsub (horizCenter width)
       (jmul (jmul (w_position w) (Num (real (length (w_peaks w))))) GUTTER)"

text \<open>
  Lines 165 to 170: the pair of \<^verbatim>\<open>invisible_peaks\<close> and the pointer the loop starts
  from.
\<close>

definition skip_invisible :: "jsnum \<Rightarrow> jsnum \<times> jsnum" where
  "skip_invisible pointer =
     (if jlt pointer (Num 0)
      then (let invisible_peaks = jneg (Math_floor pointer)
            in (invisible_peaks, jadd pointer invisible_peaks))
      else (Num 0, pointer))"

text \<open>The peaks the loop runs over: \<^verbatim>\<open>this._peaks.slice(invisible_peaks / GUTTER)\<close>.\<close>

definition sliced_peaks :: "APWaveForm \<Rightarrow> jsnum \<Rightarrow> jsnum list" where
  "sliced_peaks w width =
     slice_from (jdiv (fst (skip_invisible (initial_pointer w width))) GUTTER) (w_peaks w)"

text \<open>
  One bar is what one iteration of the loop draws: the source colour it selects, the
  pointer it draws at and the peak it draws.
\<close>

record bar =
  bar_colour :: rgba
  bar_x :: jsnum
  bar_peak :: jsnum

text \<open>
  The loop of lines 172 to 200, over the remaining peaks: \<^verbatim>\<open>continue\<close> while the
  pointer is negative, \<^verbatim>\<open>break\<close> once it is beyond the width.
\<close>

fun draw_peaks :: "jsnum \<Rightarrow> jsnum \<Rightarrow> rgba \<Rightarrow> rgba \<Rightarrow> jsnum \<Rightarrow> jsnum list \<Rightarrow> bar list" where
  "draw_peaks wd hc leftColor rightColor pointer [] = []"
| "draw_peaks wd hc leftColor rightColor pointer (peak # rest) =
     (if jlt pointer (Num 0)
      then draw_peaks wd hc leftColor rightColor (jadd pointer GUTTER) rest
      else if jgt pointer wd then []
      else \<lparr>bar_colour = (if jgt pointer hc then rightColor else leftColor),
             bar_x = pointer, bar_peak = peak\<rparr>
           # draw_peaks wd hc leftColor rightColor (jadd pointer GUTTER) rest)"

definition drawn_bars :: "APWaveForm \<Rightarrow> style_context \<Rightarrow> jsnum \<Rightarrow> bar list" where
  "drawn_bars w st width =
     draw_peaks (get_width w) (horizCenter width) (get_color st) (snd (dimmed_color st))
       (snd (skip_invisible (initial_pointer w width))) (sliced_peaks w width)"

definition bar_ops :: "jsnum \<Rightarrow> jsnum \<Rightarrow> bar \<Rightarrow> cairo_op list" where
  "bar_ops vc height b =
     [SetSourceRGBA (bar_colour b),
      MoveTo (bar_x b) (jadd vc (jmul (bar_peak b) height)),
      LineTo (bar_x b) (jsub vc (jmul (bar_peak b) height)),
      Stroke]"

definition drawFunc :: "APWaveForm \<Rightarrow> style_context \<Rightarrow> jsnum \<Rightarrow> jsnum \<Rightarrow> cairo_op list" where
  "drawFunc w st width height =
     (let vc = vertiCenter height;
          hc = horizCenter width;
          dividerColor = (if fst (accent_color st) then snd (accent_color st)
                          else get_color st)
      in [SetLineCapRound, SetLineWidth 2, SetSourceRGBA dividerColor,
          MoveTo hc (jsub vc height), LineTo hc (jadd vc height), Stroke,
          SetLineWidth 1]
         @ concat (map (bar_ops vc height) (drawn_bars w st width)))"

section \<open>The peaks generator\<close>

text \<open>
  \<^verbatim>\<open>APPeaksGenerator\<close> has the accumulation buffer \<^verbatim>\<open>loadedPeaks\<close>, the published
  array \<^verbatim>\<open>_peaks\<close> and the flag \<^verbatim>\<open>started\<close>. The two arrays are never the same
  object: every assignment to \<^verbatim>\<open>_peaks\<close> is a fresh array literal, so truncating one
  in place leaves the other alone and plain state passing is enough. Notifications
  and calls on the pipeline are appended to \<open>g_log\<close>.
\<close>

datatype gst_state = GST_PLAYING | GST_NULL

datatype gen_effect =
    NotifyPeaks
  | ThrottledNotifyPeaks
  | ParseLaunch string
  | PipelineSetState gst_state

record APPeaksGenerator =
  loadedPeaks :: "jsnum list"
  g_peaks :: "jsnum list"
  started :: bool
  g_log :: "gen_effect list"

definition new_APPeaksGenerator :: APPeaksGenerator where
  "new_APPeaksGenerator = \<lparr>loadedPeaks = [], g_peaks = [], started = False, g_log = []\<rparr>"

definition INTERVAL :: jsnum where
  "INTERVAL = Num 100000000"

definition restart :: "APPeaksGenerator \<Rightarrow> APPeaksGenerator" where
  "restart g = g\<lparr>started := True, loadedPeaks := [], g_peaks := []\<rparr>"

text \<open>
  \<^verbatim>\<open>generate_peaks_async\<close> itself launches the pipeline, sets it playing and connects
  the handler below to its bus; it assigns no field of the generator.
\<close>

definition generate_peaks_async :: "string \<Rightarrow> jsnum \<Rightarrow> APPeaksGenerator \<Rightarrow> APPeaksGenerator" where
  "generate_peaks_async uri duration g =
     g\<lparr>g_log := g_log g @ [ParseLaunch uri, PipelineSetState GST_PLAYING]\<rparr>"

text \<open>
  The bus messages the handler tells apart: an element message whose structure is named
  \<^verbatim>\<open>level\<close> and carries a peak array with first entry \<open>L\<close>; any other element message;
  end of stream; any other message type.
\<close>

datatype message = LevelSample jsnum | ElementOther | EOS | OtherMessage

datatype js_error = RangeError

text \<open>
  \<^verbatim>\<open>new Array(n).fill(0)\<close>: a length that is not an integer between 0 and
  \<open>2^32 - 1\<close> raises RangeError.
\<close>

definition new_Array_fill0 :: "jsnum \<Rightarrow> js_error + jsnum list" where
  "new_Array_fill0 n =
     (case n of
        Num r \<Rightarrow>
          (if of_int \<lfloor>r\<rfloor> = r \<and> 0 \<le> r \<and> r \<le> 4294967295
           then Inr (replicate (nat \<lfloor>r\<rfloor>) (Num 0))
           else Inl RangeError)
      | _ \<Rightarrow> Inl RangeError)"

definition db_to_linear :: "jsnum \<Rightarrow> jsnum" where
  "db_to_linear peak = Math_pow10 (jdiv peak (Num 20))"

text \<open>
  The handler connected to the bus, for the \<open>duration\<close> its closure captured. It returns
  the error it raised, if any, with the state it left behind: the push onto
  \<^verbatim>\<open>loadedPeaks\<close> happens before the array allocation that can raise.
\<close>

definition on_message :: "jsnum \<Rightarrow> message \<Rightarrow> APPeaksGenerator \<Rightarrow> js_error option \<times> APPeaksGenerator" where
  "on_message duration m g =
     (case m of
        LevelSample peak \<Rightarrow>
          (let g1 = g\<lparr>loadedPeaks := loadedPeaks g @ [db_to_linear peak]\<rparr>
           in if jgt duration (Num 0)
              then (let peaks_number = Math_ceil (jdiv duration INTERVAL);
                        remaining_peaks =
                          jsub peaks_number (Num (real (length (loadedPeaks g1))))
                    in case new_Array_fill0 remaining_peaks of
                         Inl e \<Rightarrow> (Some e, g1)
                       | Inr zeros \<Rightarrow>
                           (None, g1\<lparr>g_peaks := loadedPeaks g1 @ zeros,
                                       g_log := g_log g1 @ [ThrottledNotifyPeaks]\<rparr>))
              else (None, g1))
      | ElementOther \<Rightarrow> (None, g)
      | EOS \<Rightarrow>
          (let g1 = (if started g
                     then g\<lparr>g_peaks := loadedPeaks g, g_log := g_log g @ [NotifyPeaks]\<rparr>
                     else g);
               g2 = g1\<lparr>loadedPeaks := []\<rparr>
           in (None, g2\<lparr>g_log := g_log g2 @ [PipelineSetState GST_NULL]\<rparr>))
      | OtherMessage \<Rightarrow> (None, g))"

text \<open>
  The main loop reports an error that escapes a signal handler and goes on with the next
  message; the handler stays connected.
\<close>

definition deliver :: "jsnum \<Rightarrow> message \<Rightarrow> APPeaksGenerator \<Rightarrow> APPeaksGenerator" where
  "deliver duration m g = snd (on_message duration m g)"

fun deliver_all :: "jsnum \<Rightarrow> message list \<Rightarrow> APPeaksGenerator \<Rightarrow> APPeaksGenerator" where
  "deliver_all duration [] g = g"
| "deliver_all duration (m # ms) g = deliver_all duration ms (deliver duration m g)"

section \<open>Concrete inputs\<close>

text \<open>
  The widgets, the style and the generator state that the examples below evaluate the
  model on. \<open>scenario_A\<close> has ten peaks, position one half and width 100, so its
  pointer starts at 30; \<open>scenario_C\<close> is the same widget at position 0.3;
  \<open>narrow_widget\<close> and \<open>scrolled_widget\<close> have two peaks and width 6, with the
  pointer starting at \<open>-1\<close> and at \<open>-5\<close>.
\<close>

definition example_style :: style_context where
  "example_style =
     \<lparr>get_color = \<lparr>red = 0, green = 0, blue = 0, alpha = 1\<rparr>,
      dimmed_color = (True, \<lparr>red = 0, green = 0, blue = 0, alpha = 1 / 2\<rparr>),
      accent_color = (True, \<lparr>red = 0, green = 0, blue = 1, alpha = 1\<rparr>)\<rparr>"

definition ten_peaks :: "jsnum list" where
  "ten_peaks = [Num (1 / 2), Num (1 / 2), Num (1 / 2), Num (1 / 2), Num (1 / 2),
                Num (1 / 2), Num (1 / 2), Num (1 / 2), Num (1 / 2), Num (1 / 2)]"

definition scenario_A :: APWaveForm where
  "scenario_A =
     \<lparr>w_peaks = ten_peaks, w_position = Num (1 / 2), drag_start_position = None,
      get_width = Num 100, w_log = []\<rparr>"

definition scenario_C :: APWaveForm where
  "scenario_C =
     \<lparr>w_peaks = ten_peaks, w_position = Num (3 / 10), drag_start_position = None,
      get_width = Num 100, w_log = []\<rparr>"

definition narrow_widget :: APWaveForm where
  "narrow_widget =
     \<lparr>w_peaks = [Num (1 / 2), Num (1 / 4)], w_position = Num (1 / 2),
      drag_start_position = None, get_width = Num 6, w_log = []\<rparr>"

definition scrolled_widget :: APWaveForm where
  "scrolled_widget =
     \<lparr>w_peaks = [Num (1 / 2), Num (1 / 4)], w_position = Num 1,
      drag_start_position = None, get_width = Num 6, w_log = []\<rparr>"

text \<open>
  A generator that was never restarted and has received one level sample of a two-bucket
  session.
\<close>

definition stale_generator :: APPeaksGenerator where
  "stale_generator = deliver (Num 200000000) (LevelSample (Num 0)) new_APPeaksGenerator"

section \<open>Properties of the drag gesture\<close>

lemma position_changed_events_append:
  "position_changed_events (a @ b) = position_changed_events a @ position_changed_events b"
  by (simp add: position_changed_events_def)

lemma dragUpdate_keeps_events:
  "position_changed_events (w_log (dragUpdate x w)) = position_changed_events (w_log w)"
  by (simp add: dragUpdate_def position_changed_events_def Let_def split: option.splits)

lemma dragUpdates_keeps_events:
  "position_changed_events (w_log (dragUpdates xs w)) = position_changed_events (w_log w)"
  by (induction xs arbitrary: w) (simp_all add: dragUpdate_keeps_events)

lemma dragBegin_keeps_events:
  "position_changed_events (w_log (dragBegin w)) = position_changed_events (w_log w)"
  by (simp add: dragBegin_def position_changed_events_def)

text \<open>
  C1, as the source has it: \<^verbatim>\<open>dragEnd\<close> has no guard. In every state, idle or not, it
  clears the start position, leaves position and peaks alone and emits exactly one
  \<^verbatim>\<open>position-changed\<close> carrying the current position. Over a session of a begin, any
  updates and an end, the only \<^verbatim>\<open>position-changed\<close> is the one of the end, and it
  carries the final position.
\<close>

theorem dragEnd_emits_unconditionally:
  "w_log (dragEnd w) = w_log w @ [EmitPositionChanged (w_position w)]
   \<and> drag_start_position (dragEnd w) = None
   \<and> w_position (dragEnd w) = w_position w
   \<and> w_peaks (dragEnd w) = w_peaks w
   \<and> position_changed_events (w_log (dragEnd (dragUpdates xs (dragBegin w))))
       = position_changed_events (w_log w) @ [w_position (dragUpdates xs (dragBegin w))]"
proof -
  have "position_changed_events (w_log (dragUpdates xs (dragBegin w)))
        = position_changed_events (w_log w)"
    by (simp add: dragUpdates_keeps_events dragBegin_keeps_events)
  then show ?thesis
    by (simp add: dragEnd_def position_changed_events_append)
       (simp add: position_changed_events_def)
qed

text \<open>
  On scenario C (ten peaks, position 0.3) a drag of offset \<open>-40\<close> ends with one
  \<^verbatim>\<open>position-changed\<close> carrying 1; on a fresh widget an end with no begin emits one
  carrying 0.
\<close>

theorem dragEnd_emits_witness:
  "position_changed_events
     (w_log (dragEnd (dragUpdates [Num (- 40)] (dragBegin scenario_C)))) = [Num 1]
   \<and> w_log (dragEnd (new_APWaveForm (Num 100))) = [EmitPositionChanged (Num 0)]"
  using dragEnd_emits_unconditionally [of scenario_C "[Num (- 40)]"]
    dragEnd_emits_unconditionally [of "new_APWaveForm (Num 100)" "[]"]
  by (simp add: scenario_C_def ten_peaks_def dragBegin_def dragUpdate_def Let_def GUTTER_def
      jsub_def Math_min_def Math_max_def position_changed_events_def new_APWaveForm_def)

text \<open>
  C1, the claim as stated fails: a freshly constructed widget is idle, and \<^verbatim>\<open>dragEnd\<close>
  on it emits \<^verbatim>\<open>position-changed\<close>.
\<close>

theorem dragEnd_idle_counterexample:
  "\<not> (drag_start_position (new_APWaveForm (Num 100)) = None
      \<longrightarrow> position_changed_events (w_log (dragEnd (new_APWaveForm (Num 100)))) = [])"
  by (simp add: new_APWaveForm_def dragEnd_def position_changed_events_def)

text \<open>
  C10: \<^verbatim>\<open>dragBegin\<close> tests nothing. In every state it stores the current position as
  the start position, claims the gesture and emits \<^verbatim>\<open>gesture-pressed\<close>; a second
  begin in the middle of a drag starts again from the position the drag has reached,
  and \<^verbatim>\<open>gesture-pressed\<close> is emitted a second time.
\<close>

theorem dragBegin_unconditional:
  "drag_start_position (dragBegin w) = Some (w_position w)
   \<and> w_log (dragBegin w) = w_log w @ [GestureClaimed, EmitGesturePressed]
   \<and> w_position (dragBegin w) = w_position w
   \<and> drag_start_position (dragBegin (dragUpdate x (dragBegin w)))
       = Some (w_position (dragUpdate x (dragBegin w)))
   \<and> w_log (dragBegin (dragUpdate x (dragBegin w)))
       = w_log w @ [GestureClaimed, EmitGesturePressed, QueueDraw,
                    GestureClaimed, EmitGesturePressed]"
  by (simp add: dragBegin_def dragUpdate_def Let_def)

text \<open>
  On scenario C, a begin, an update of offset \<open>-40\<close> and a second begin: the drag now
  starts from 1, the position the first drag had reached.
\<close>

theorem dragBegin_witness:
  "drag_start_position (dragBegin (dragUpdate (Num (- 40)) (dragBegin scenario_C)))
     = Some (Num 1)"
  using dragBegin_unconditional [of scenario_C "Num (- 40)"]
  by (simp add: scenario_C_def ten_peaks_def dragBegin_def dragUpdate_def Let_def GUTTER_def
      jsub_def Math_min_def Math_max_def)

text \<open>The clamp of \<^verbatim>\<open>dragUpdate\<close> lands in the unit interval on everything but NaN.\<close>

lemma clamp_unit_interval:
  "x \<noteq> NaN \<Longrightarrow> unit_interval (Math_max (Math_min x (Num 1)) (Num 0))"
  by (cases x) (simp_all add: Math_min_def Math_max_def unit_interval_def)

lemma dragUpdate_in_range:
  assumes "drag_start_position w = Some (Num s)" and "w_peaks w \<noteq> []"
  shows "w_position (dragUpdate (Num x) w)
           = Num (max (min (s - x / (real (length (w_peaks w)) * 4)) 1) 0)
       \<and> unit_interval (w_position (dragUpdate (Num x) w))"
  using assms
  by (simp add: dragUpdate_def Let_def GUTTER_def jsub_def Math_min_def Math_max_def
      unit_interval_def)

lemma dragUpdate_keeps_session:
  "drag_start_position (dragUpdate x w) = drag_start_position w
   \<and> w_peaks (dragUpdate x w) = w_peaks w"
  by (simp add: dragUpdate_def Let_def split: option.splits)

text \<open>
  With at least one peak and finite numbers, the position after every update of a run of
  updates is in the unit interval.
\<close>

lemma dragUpdates_in_range:
  assumes "drag_start_position w = Some (Num s)" and "w_peaks w \<noteq> []" and "xs \<noteq> []"
  shows "unit_interval (w_position (dragUpdates (map Num xs) w))"
  using assms
proof (induction xs arbitrary: w)
  case Nil
  then show ?case by simp
next
  case (Cons x xs)
  show ?case
  proof (cases "xs = []")
    case True
    have "unit_interval (w_position (dragUpdate (Num x) w))"
      using Cons.prems dragUpdate_in_range [of w s x] by blast
    then show ?thesis using True by simp
  next
    case False
    have "drag_start_position (dragUpdate (Num x) w) = Some (Num s)"
      and "w_peaks (dragUpdate (Num x) w) \<noteq> []"
      using Cons.prems by (simp_all add: dragUpdate_keeps_session)
    then show ?thesis using Cons.IH [of "dragUpdate (Num x) w"] False by simp
  qed
qed

text \<open>
  C5, where the source leaves the interval: on a widget that has no peaks yet, an update
  with offset 0 divides 0 by 0, and the NaN goes through \<^verbatim>\<open>Math.min\<close> and
  \<^verbatim>\<open>Math.max\<close> into the position.
\<close>

theorem dragUpdate_empty_peaks_NaN:
  "w_position (dragUpdate (Num 0) (dragBegin (new_APWaveForm (Num 100)))) = NaN
   \<and> \<not> unit_interval (w_position (dragUpdate (Num 0) (dragBegin (new_APWaveForm (Num 100)))))"
  by (simp add: dragBegin_def dragUpdate_def new_APWaveForm_def GUTTER_def jsub_def
      Math_min_def Math_max_def unit_interval_def)

section \<open>Properties of the peaks generator\<close>

lemma deliver_level_loaded:
  "loadedPeaks (deliver d (LevelSample L) g) = loadedPeaks g @ [db_to_linear L]"
  by (simp add: deliver_def on_message_def Let_def split: sum.splits)

lemma deliver_level_started:
  "started (deliver d (LevelSample L) g) = started g"
  by (simp add: deliver_def on_message_def Let_def split: sum.splits)

lemma deliver_all_levels_loaded:
  "loadedPeaks (deliver_all d (map LevelSample Ls) g) = loadedPeaks g @ map db_to_linear Ls"
  by (induction Ls arbitrary: g) (simp_all add: deliver_level_loaded)

lemma deliver_all_levels_started:
  "started (deliver_all d (map LevelSample Ls) g) = started g"
  by (induction Ls arbitrary: g) (simp_all add: deliver_level_started)

lemma deliver_EOS:
  "deliver d EOS g =
     (if started g
      then g\<lparr>g_peaks := loadedPeaks g, loadedPeaks := [],
             g_log := g_log g @ [NotifyPeaks, PipelineSetState GST_NULL]\<rparr>
      else g\<lparr>loadedPeaks := [], g_log := g_log g @ [PipelineSetState GST_NULL]\<rparr>)"
  by (simp add: deliver_def on_message_def Let_def)







text \<open>
  C3, as the source has it: \<^verbatim>\<open>generate_peaks_async\<close> assigns none of the three fields,
  so the flag, the buffer and the published array are what they were; only
  \<^verbatim>\<open>restart\<close> sets the flag and empties the two arrays, and a session begins from
  the reset state when the caller restarts before starting it.
\<close>

theorem generate_peaks_async_keeps_state:
  "started (generate_peaks_async uri d g) = started g
   \<and> loadedPeaks (generate_peaks_async uri d g) = loadedPeaks g
   \<and> g_peaks (generate_peaks_async uri d g) = g_peaks g
   \<and> restart g = g\<lparr>started := True, loadedPeaks := [], g_peaks := []\<rparr>
   \<and> started (generate_peaks_async uri d (restart g))
   \<and> loadedPeaks (generate_peaks_async uri d (restart g)) = []
   \<and> g_peaks (generate_peaks_async uri d (restart g)) = []"
  by (simp add: generate_peaks_async_def restart_def)

text \<open>On the stale generator, a new session still sees the old sample and is not started.\<close>

theorem generate_peaks_async_witness:
  "loadedPeaks (generate_peaks_async ''file:///b.ogg'' (Num 200000000) stale_generator)
     = [Num 1]
   \<and> \<not> started (generate_peaks_async ''file:///b.ogg'' (Num 200000000) stale_generator)"
  using generate_peaks_async_keeps_state [of "''file:///b.ogg''" "Num 200000000" stale_generator]
  by (simp add: stale_generator_def deliver_def on_message_def new_APPeaksGenerator_def
      Let_def db_to_linear_def split: sum.splits)

text \<open>
  C3, the claim as stated fails: on a generator that was never restarted and holds one
  sample, starting a session leaves the flag unset and both arrays non-empty, which is
  not the state \<^verbatim>\<open>restart\<close> gives.
\<close>

theorem generate_peaks_async_counterexample:
  "\<not> (started (generate_peaks_async ''file:///b.ogg'' (Num 200000000) stale_generator)
      \<and> loadedPeaks (generate_peaks_async ''file:///b.ogg'' (Num 200000000) stale_generator) = []
      \<and> g_peaks (generate_peaks_async ''file:///b.ogg'' (Num 200000000) stale_generator) = [])"
  by (simp add: generate_peaks_async_def stale_generator_def deliver_def on_message_def
      new_APPeaksGenerator_def Let_def split: sum.splits)

text \<open>
  C6: after \<^verbatim>\<open>restart\<close>, any \<open>N\<close> level samples and then end of stream, for any
  duration of the session, the published array is exactly the \<open>N\<close> converted samples in
  arrival order, of length \<open>N\<close>; it was published by the plain notification of the
  setter, and the buffer is empty. On any state, started or not, end of stream empties
  the buffer, and it replaces the published array only when the session was started.
\<close>

theorem commit_law:
  "g_peaks (deliver d EOS (deliver_all d (map LevelSample Ls) (restart g)))
     = map db_to_linear Ls
   \<and> length (g_peaks (deliver d EOS (deliver_all d (map LevelSample Ls) (restart g))))
     = length Ls
   \<and> loadedPeaks (deliver d EOS (deliver_all d (map LevelSample Ls) (restart g))) = []
   \<and> g_log (deliver d EOS (deliver_all d (map LevelSample Ls) (restart g)))
     = g_log (deliver_all d (map LevelSample Ls) (restart g))
       @ [NotifyPeaks, PipelineSetState GST_NULL]
   \<and> loadedPeaks (deliver d EOS g) = []
   \<and> g_peaks (deliver d EOS g) = (if started g then loadedPeaks g else g_peaks g)"
proof -
  let ?g1 = "deliver_all d (map LevelSample Ls) (restart g)"
  have s: "started ?g1" by (simp add: deliver_all_levels_started restart_def)
  have l: "loadedPeaks ?g1 = map db_to_linear Ls"
    by (simp add: deliver_all_levels_loaded restart_def)
  show ?thesis using s l by (simp add: deliver_EOS)
qed

text \<open>
  Three samples in a session of one bucket: the second and third raise on the padding,
  and the end of stream still publishes all three.
\<close>

theorem commit_law_witness:
  "g_peaks (deliver (Num 100000000) EOS
      (deliver_all (Num 100000000) (map LevelSample [Num (- 20), Num 0, Num 0])
         (restart stale_generator)))
    = [Num (1 / 10), Num 1, Num 1]"
  using commit_law [of "Num 100000000" "[Num (- 20), Num 0, Num 0]" stale_generator]
  by (simp add: db_to_linear_def powr_minus)

text \<open>
  C7: \<^verbatim>\<open>restart\<close> twice is \<^verbatim>\<open>restart\<close> once, and the state it leaves is started with
  both arrays empty.
\<close>

theorem restart_idempotent:
  "restart (restart g) = restart g \<and> started (restart g)
   \<and> loadedPeaks (restart g) = [] \<and> g_peaks (restart g) = []"
  by (simp add: restart_def)

text \<open>On the stale generator, whose arrays are not empty.\<close>

theorem restart_witness:
  "restart (restart stale_generator) = restart stale_generator
   \<and> g_peaks (restart stale_generator) = []"
  using restart_idempotent [of stale_generator] by simp

text \<open>
  C8: whatever the duration and whether or not the padding can be allocated, the handler
  of a level sample of \<open>L\<close> decibels appends \<open>10\<close> to the power \<open>L / 20\<close> to the buffer;
  0 dB gives 1 and -20 dB gives one tenth.
\<close>

theorem db_conversion:
  "loadedPeaks (snd (on_message d (LevelSample (Num L)) g))
     = loadedPeaks g @ [Num (10 powr (L / 20))]
   \<and> db_to_linear (Num 0) = Num 1
   \<and> db_to_linear (Num (- 20)) = Num (1 / 10)"
  by (simp add: on_message_def Let_def db_to_linear_def powr_minus split: sum.splits)

text \<open>A sample of \<open>-40\<close> dB in a session of unknown duration appends one hundredth.\<close>

theorem db_conversion_witness:
  "loadedPeaks (snd (on_message (Num 0) (LevelSample (Num (- 40))) new_APPeaksGenerator))
     = [Num (1 / 100)]"
proof -
  have "(10::real) powr (- 2) = 1 / 100"
    by (simp add: powr_minus powr_numeral divide_simps)
  then show ?thesis
    using db_conversion [of "Num 0" "- 40" new_APPeaksGenerator]
    by (simp add: new_APPeaksGenerator_def)
qed

section \<open>Properties of the drawing\<close>

lemma jlt_irrefl: "\<not> jlt x x"
  by (cases x) simp_all

lemma draw_peaks_colour:
  "b \<in> set (draw_peaks wd hc l r p xs) \<Longrightarrow>
   bar_colour b = (if jgt (bar_x b) hc then r else l)"
  by (induction xs arbitrary: p) (auto split: if_splits)

lemma draw_peaks_nonneg:
  "b \<in> set (draw_peaks wd hc l r p xs) \<Longrightarrow> \<not> jlt (bar_x b) (Num 0)"
  by (induction xs arbitrary: p) (auto split: if_splits)

lemma skip_invisible_neg:
  assumes "p < 0"
  shows "skip_invisible (Num p) = (Num (of_int \<lceil>- p\<rceil>), Num (p - of_int \<lfloor>p\<rfloor>))"
  using assms by (simp add: skip_invisible_def Let_def ceiling_def)

lemma slice_from_quarter:
  assumes "0 \<le> i"
  shows "slice_from (jdiv (Num (of_int i)) GUTTER) xs = drop (nat (i div 4)) xs"
proof -
  have "\<lfloor>real_of_int i / 4\<rfloor> = i div 4"
    using floor_divide_of_int_eq [of i 4, where ?'a = real] by simp
  moreover have "0 \<le> i div 4" using assms by simp
  ultimately show ?thesis using assms
    by (simp add: GUTTER_def js_trunc_def Let_def)
qed

text \<open>
  What lines 165 to 173 compute when the pointer \<open>p\<close> starts negative:
  \<^verbatim>\<open>invisible_peaks\<close> is the ceiling of \<open>-p\<close>, a count of whole pixels; the pointer is
  advanced by it and becomes the fractional part of \<open>p\<close>, at least 0 and below 1; the
  slice drops the integer quotient of \<^verbatim>\<open>invisible_peaks\<close> by \<open>GUTTER\<close> leading peaks.
  No bar is drawn at a negative pointer.
\<close>

lemma skip_invisible_quantised:
  assumes "initial_pointer w width = Num p" and "p < 0"
  shows "fst (skip_invisible (initial_pointer w width)) = Num (of_int \<lceil>- p\<rceil>)
       \<and> snd (skip_invisible (initial_pointer w width)) = Num (p - of_int \<lfloor>p\<rfloor>)
       \<and> 0 \<le> p - of_int \<lfloor>p\<rfloor> \<and> p - of_int \<lfloor>p\<rfloor> < 1
       \<and> sliced_peaks w width = drop (nat (\<lceil>- p\<rceil> div 4)) (w_peaks w)
       \<and> (\<forall>b \<in> set (drawn_bars w st width). \<not> jlt (bar_x b) (Num 0))"
proof -
  have c: "0 \<le> \<lceil>- p\<rceil>" using assms(2) by (simp add: less_imp_le)
  have f: "0 \<le> p - of_int \<lfloor>p\<rfloor> \<and> p - of_int \<lfloor>p\<rfloor> < 1" by linarith
  show ?thesis
    using f by (auto simp: assms skip_invisible_neg sliced_peaks_def slice_from_quarter [OF c]
        drawn_bars_def dest: draw_peaks_nonneg)
qed

text \<open>
  C4, where the source departs from it. On \<open>narrow_widget\<close> the pointer starts at
  \<open>-1\<close>, so the two peaks stand at \<open>-1\<close> and 3, and the claim has one peak skipped
  (the ceiling of one quarter) and the pointer advanced by one \<open>GUTTER\<close> to 3. The
  source sets \<^verbatim>\<open>invisible_peaks\<close> to 1, advances the pointer by 1 to 0, slices from
  one quarter, which drops nothing, and draws both peaks, at 0 and at 4.
\<close>

theorem skip_invisible_not_gutter_multiple:
  "initial_pointer narrow_widget (Num 6) = Num (- 1)
   \<and> nat \<lceil>- (- 1) / (4::real)\<rceil> = 1
   \<and> skip_invisible (initial_pointer narrow_widget (Num 6)) = (Num 1, Num 0)
   \<and> sliced_peaks narrow_widget (Num 6) = w_peaks narrow_widget
   \<and> map bar_x (drawn_bars narrow_widget example_style (Num 6)) = [Num 0, Num 4]
   \<and> map bar_peak (drawn_bars narrow_widget example_style (Num 6)) = [Num (1 / 2), Num (1 / 4)]
   \<and> \<not> (length (w_peaks narrow_widget) - length (sliced_peaks narrow_widget (Num 6))
          = nat \<lceil>- (- 1) / (4::real)\<rceil>
        \<and> snd (skip_invisible (initial_pointer narrow_widget (Num 6)))
          = Num (- 1 + real (nat \<lceil>- (- 1) / (4::real)\<rceil>) * 4))"
proof -
  have c: "\<lceil>(1::real) / 4\<rceil> = 1"
    by (rule ceiling_unique) simp_all
  show ?thesis
    by (simp add: narrow_widget_def example_style_def drawn_bars_def sliced_peaks_def
        skip_invisible_def initial_pointer_def horizCenter_def GUTTER_def jsub_def
        js_trunc_def jgt_def c)
qed

text \<open>
  On \<open>scrolled_widget\<close> the pointer starts at \<open>-5\<close>: both peaks stand left of the view,
  at \<open>-5\<close> and \<open>-1\<close>, and the source draws the second one at 0.
\<close>

lemma scrolled_widget_bars:
  "initial_pointer scrolled_widget (Num 6) = Num (- 5)
   \<and> snd (skip_invisible (initial_pointer scrolled_widget (Num 6))) = Num 0
   \<and> sliced_peaks scrolled_widget (Num 6) = [Num (1 / 4)]
   \<and> map bar_x (drawn_bars scrolled_widget example_style (Num 6)) = [Num 0]"
proof -
  have p: "initial_pointer scrolled_widget (Num 6) = Num (- 5)"
    by (simp add: scrolled_widget_def initial_pointer_def horizCenter_def GUTTER_def jsub_def)
  have n: "(- 5 :: real) < 0" by simp
  have s: "sliced_peaks scrolled_widget (Num 6) = [Num (1 / 4)]"
    using skip_invisible_quantised [OF p n, of example_style]
    by (simp add: scrolled_widget_def)
  have q: "snd (skip_invisible (initial_pointer scrolled_widget (Num 6))) = Num 0"
    using skip_invisible_quantised [OF p n, of example_style] by simp
  have "map bar_x (drawn_bars scrolled_widget example_style (Num 6)) = [Num 0]"
    unfolding drawn_bars_def s q
    by (simp add: scrolled_widget_def horizCenter_def jgt_def)
  then show ?thesis using p s q by simp
qed

text \<open>
  C9: every bar is drawn in the dimmed colour when its pointer is strictly greater than
  the horizontal centre and in the foreground colour otherwise; a bar exactly at the
  centre is drawn in the foreground colour.
\<close>

theorem colour_boundary:
  "\<forall>b \<in> set (drawn_bars w st width).
      bar_colour b = (if jgt (bar_x b) (horizCenter width)
                      then snd (dimmed_color st) else get_color st)
    \<and> (bar_x b = horizCenter width \<longrightarrow> bar_colour b = get_color st)"
  by (auto simp: drawn_bars_def jgt_def jlt_irrefl dest!: draw_peaks_colour)

text \<open>
  Scenario A: the bars stand at 30, 34 and so on to 66; the sixth stands at 50, the
  centre of the width 100, and is drawn in the foreground colour.
\<close>

theorem colour_boundary_witness:
  "drawn_bars scenario_A example_style (Num 100) ! 5
     \<in> set (drawn_bars scenario_A example_style (Num 100))
   \<and> bar_x (drawn_bars scenario_A example_style (Num 100) ! 5) = horizCenter (Num 100)
   \<and> bar_colour (drawn_bars scenario_A example_style (Num 100) ! 5) = get_color example_style
   \<and> map bar_x (drawn_bars scenario_A example_style (Num 100))
      = [Num 30, Num 34, Num 38, Num 42, Num 46, Num 50, Num 54, Num 58, Num 62, Num 66]"
proof -
  let ?bars = "drawn_bars scenario_A example_style (Num 100)"
  have xs: "map bar_x ?bars
      = [Num 30, Num 34, Num 38, Num 42, Num 46, Num 50, Num 54, Num 58, Num 62, Num 66]"
    by (simp add: scenario_A_def ten_peaks_def drawn_bars_def sliced_peaks_def
        skip_invisible_def initial_pointer_def horizCenter_def GUTTER_def jsub_def
        js_trunc_def jgt_def)
  have len: "length ?bars = 10"
    using arg_cong [OF xs, of length] by simp
  have m5: "?bars ! 5 \<in> set ?bars"
    using len by simp
  have "map bar_x ?bars ! 5 = Num 50"
    unfolding xs by simp
  then have x5: "bar_x (?bars ! 5) = horizCenter (Num 100)"
    using len by (simp add: horizCenter_def)
  have "bar_colour (?bars ! 5) = get_color example_style"
    using colour_boundary [of scenario_A example_style "Num 100"] m5 x5 by blast
  then show ?thesis using m5 x5 xs by simp
qed

end
